theory Spec2Isabelle
  imports Main "HOL-Library.Sublist"
begin

section \<open>Go library functions used by the commands\<close>

text \<open>
  Go strings are byte sequences; they are modelled as \<open>string\<close> (a list of 8-bit
  characters). The functions of this section belong to the Go standard library, to cobra
  and to apimachinery; they are written out here as far as the commands of
  \<^verbatim>\<open>internal/cmd\<close> use them.
\<close>

subsection \<open>strings.HasPrefix and strings.TrimPrefix\<close>

definition HasPrefix :: "string \<Rightarrow> string \<Rightarrow> bool" where
  "HasPrefix s pre \<longleftrightarrow> length s \<ge> length pre \<and> take (length pre) s = pre"

definition TrimPrefix :: "string \<Rightarrow> string \<Rightarrow> string" where
  "TrimPrefix s pre = (if HasPrefix s pre then drop (length pre) s else s)"

subsection \<open>Errors\<close>

text \<open>
  A Go \<open>error\<close> value. \<open>Errorf\<close> carries the message of an error made with
  \<^verbatim>\<open>fmt.Errorf\<close> or handed back by an external collaborator; \<open>ExactArgsError n m\<close>
  is cobra's "accepts n arg(s), received m"; \<open>IndexOutOfRange\<close> is the run-time panic of
  \<^verbatim>\<open>args[0]\<close> on an empty slice.
\<close>

datatype error = Errorf string | ExactArgsError nat nat | IndexOutOfRange

subsection \<open>fmt.Sprintf with a format and no operands\<close>

text \<open>
  \<^verbatim>\<open>cmd.Printf(stdout)\<close> hands the captured text to \<^verbatim>\<open>fmt.Sprintf\<close> as the FORMAT, with
  an empty operand list. The functions below follow \<^verbatim>\<open>(*pp).doPrintf\<close> of package fmt for
  \<^verbatim>\<open>len(a) = 0\<close>: \<open>argNum\<close> stays 0, no verb ever finds an operand, and the flags, width
  and precision that are parsed have no effect on what is written.
\<close>

definition isDigit :: "char \<Rightarrow> bool" where
  "isDigit c \<longleftrightarrow> 48 \<le> (of_char c :: nat) \<and> (of_char c :: nat) \<le> 57"

definition tooLarge :: "nat \<Rightarrow> bool" where
  "tooLarge x \<longleftrightarrow> x > 1000000"

text \<open>
  The loop of \<^verbatim>\<open>parsenum(s, start, end)\<close> on the bytes \<open>s[start:end]\<close>. The result is
  \<open>None\<close> where the Go code gives up on a number that is too large (it then returns
  \<open>newi = end\<close>); otherwise the number, whether a digit was seen, and the bytes from
  \<open>newi\<close> on.
\<close>

fun parsenum_loop :: "nat \<Rightarrow> bool \<Rightarrow> string \<Rightarrow> (nat \<times> bool \<times> string) option" where
  "parsenum_loop num isnum [] = Some (num, isnum, [])"
| "parsenum_loop num isnum (c # cs) =
     (if isDigit c then
        (if tooLarge num then None
         else parsenum_loop (num * 10 + ((of_char c :: nat) - 48)) True cs)
      else Some (num, isnum, c # cs))"

definition parsenum :: "string \<Rightarrow> nat \<times> bool \<times> string" where
  "parsenum s =
     (if s = [] then (0, False, [])
      else (case parsenum_loop 0 False s of
              None \<Rightarrow> (0, False, [])
            | Some r \<Rightarrow> r))"

text \<open>
  \<^verbatim>\<open>parseArgNumber(format)\<close> for a format that starts with \<open>[\<close>: the number of
  bytes to skip and whether a well-formed index \<open>[n]\<close> was read.
\<close>

definition parseArgNumber :: "string \<Rightarrow> nat \<times> bool" where
  "parseArgNumber format =
     (if length format < 3 then (1, False)
      else (let inner = takeWhile (\<lambda>c. c \<noteq> CHR '']'') (tl format) in
            if length inner = length (tl format) then (1, False)
            else (case parsenum inner of
                    (width, ok, rest) \<Rightarrow>
                      if \<not> ok \<or> rest \<noteq> [] then (length inner + 2, False)
                      else (length inner + 2, True))))"

text \<open>
  \<^verbatim>\<open>(*pp).argNumber\<close> with \<open>numArgs = 0\<close>. No index is in range, so a bracket always
  clears \<open>goodArgNum\<close>. The result is the rest of the format, \<open>found\<close>, and the new
  \<open>goodArgNum\<close>.
\<close>

definition argNumber :: "string \<Rightarrow> bool \<Rightarrow> string \<times> bool \<times> bool" where
  "argNumber s good =
     (case s of
        [] \<Rightarrow> (s, False, good)
      | c # _ \<Rightarrow>
          if c \<noteq> CHR ''['' then (s, False, good)
          else (case parseArgNumber s of (wid, ok) \<Rightarrow> (drop wid s, ok, False)))"

text \<open>
  The verb is one rune. \<^verbatim>\<open>utf8.DecodeRuneInString\<close> reads a well-formed UTF-8 sequence
  of up to four bytes; on anything else the rune is \<open>U+FFFD\<close> and one byte is consumed.
  \<^verbatim>\<open>writeRune\<close> then writes the rune in UTF-8 again. \<open>decodeVerb\<close> gives the bytes
  written for the verb and the rest of the format.
\<close>

definition cont :: "nat \<Rightarrow> nat \<Rightarrow> char \<Rightarrow> bool" where
  "cont lo hi c \<longleftrightarrow> lo \<le> (of_char c :: nat) \<and> (of_char c :: nat) \<le> hi"

definition RuneError :: string where
  "RuneError = [char_of (0xEF :: nat), char_of (0xBF :: nat), char_of (0xBD :: nat)]"

fun decodeVerb :: "string \<Rightarrow> string \<times> string" where
  "decodeVerb [] = ([], [])"
| "decodeVerb (c # cs) =
     (let b = (of_char c :: nat) in
      if b < 0x80 then ([c], cs)
      else if b < 0xC2 \<or> 0xF4 < b then (RuneError, cs)
      else
        (let sz = (if b < 0xE0 then 2 else if b < 0xF0 then 3 else 4 :: nat);
             lo = (if b = 0xE0 then 0xA0 else if b = 0xF0 then 0x90 else 0x80 :: nat);
             hi = (if b = 0xED then 0x9F else if b = 0xF4 then 0x8F else 0xBF :: nat)
         in if length (c # cs) < sz then (RuneError, cs)
            else if \<not> cont lo hi (cs ! 0) then (RuneError, cs)
            else if sz \<le> 2 then (take 2 (c # cs), drop 2 (c # cs))
            else if \<not> cont 0x80 0xBF (cs ! 1) then (RuneError, cs)
            else if sz \<le> 3 then (take 3 (c # cs), drop 3 (c # cs))
            else if \<not> cont 0x80 0xBF (cs ! 2) then (RuneError, cs)
            else (take 4 (c # cs), drop 4 (c # cs))))"

definition isFlag :: "char \<Rightarrow> bool" where
  "isFlag c \<longleftrightarrow> c = CHR ''#'' \<or> c = CHR ''0'' \<or> c = CHR ''+'' \<or> c = CHR ''-'' \<or> c = CHR '' ''"

text \<open>
  The width part of a verb ("Do we have width?"): \<open>*\<close> asks for an operand that is
  not there and writes \<open>%!(BADWIDTH)\<close>; otherwise a number is read. The arguments are
  the format from the current position, \<open>afterIndex\<close> and \<open>goodArgNum\<close>; the result
  is what is written, the rest of the format and the two flags.
\<close>

definition doWidth :: "string \<Rightarrow> bool \<Rightarrow> bool \<Rightarrow> string \<times> string \<times> bool \<times> bool" where
  "doWidth s afterIndex good =
     (case s of
        [] \<Rightarrow> ([], [], afterIndex, good)
      | c # cs \<Rightarrow>
          if c = CHR ''*'' then (''%!(BADWIDTH)'', cs, False, good)
          else (case parsenum s of
                  (wid, widPresent, r) \<Rightarrow>
                    ([], r, afterIndex, good \<and> \<not> (afterIndex \<and> widPresent))))"

text \<open>
  The precision part of a verb ("Do we have precision?"), in the same form. The test of
  the Go code is \<^verbatim>\<open>i+1 < end && format[i] == '.'\<close>: a \<open>.\<close> that is the last byte of the
  format starts no precision (it is read as the verb afterwards).
\<close>

definition doPrecision :: "string \<Rightarrow> bool \<Rightarrow> bool \<Rightarrow> string \<times> string \<times> bool \<times> bool" where
  "doPrecision s afterIndex good =
     (case s of
        [] \<Rightarrow> ([], [], afterIndex, good)
      | c # cs \<Rightarrow>
          if cs \<noteq> [] \<and> c = CHR ''.'' then
            (case argNumber cs (good \<and> \<not> afterIndex) of
               (s', afterIndex', good') \<Rightarrow>
                 (case s' of
                    [] \<Rightarrow> ([], [], afterIndex', good')
                  | d # ds \<Rightarrow>
                      if d = CHR ''*'' then (''%!(BADPREC)'', ds, False, good')
                      else (case parsenum s' of
                              (prec, precPresent, r) \<Rightarrow> ([], r, afterIndex', good'))))
          else ([], s, afterIndex, good))"

text \<open>
  One pass of the format loop after a \<open>%\<close> has been read: flags, argument index, width,
  precision, argument index, verb. The result is what is written and the rest of the
  format; the rest is \<open>None\<close> where the loop is left because the format ended before a
  verb.
\<close>

definition doVerb :: "string \<Rightarrow> string \<times> string option" where
  "doVerb s0 =
     (case argNumber (dropWhile isFlag s0) True of
        (s2, afterIndex2, good2) \<Rightarrow>
     (case doWidth s2 afterIndex2 good2 of
        (out3, s3, afterIndex3, good3) \<Rightarrow>
     (case doPrecision s3 afterIndex3 good3 of
        (out6, s6, afterIndex6, good6) \<Rightarrow>
     (case (if \<not> afterIndex6 then argNumber s6 good6 else (s6, afterIndex6, good6)) of
        (s7, afterIndex7, good7) \<Rightarrow>
          if s7 = [] then (out3 @ out6 @ ''%!(NOVERB)'', None)
          else (case decodeVerb s7 of
                  (verb, rest) \<Rightarrow>
                    if verb = ''%'' then (out3 @ out6 @ ''%'', Some rest)
                    else if \<not> good7 then
                      (out3 @ out6 @ ''%!'' @ verb @ ''(BADINDEX)'', Some rest)
                    else (out3 @ out6 @ ''%!'' @ verb @ ''(MISSING)'', Some rest))))))"

text \<open>
  Every part of a verb leaves a rest of the format that is no longer than what it was
  given; the format loop therefore ends.
\<close>

lemma parsenum_loop_len:
  "parsenum_loop num isnum s = Some (n, b, r) \<Longrightarrow> length r \<le> length s"
proof (induction s arbitrary: num isnum)
  case Nil
  then show ?case by simp
next
  case (Cons c cs)
  show ?case
  proof (cases "isDigit c")
    case True
    with Cons.prems
    have "parsenum_loop (num * 10 + ((of_char c :: nat) - 48)) True cs = Some (n, b, r)"
      by (simp split: if_splits)
    from Cons.IH[OF this] show ?thesis by simp
  next
    case False
    with Cons.prems show ?thesis by simp
  qed
qed

lemma parsenum_len: "parsenum s = (n, b, r) \<Longrightarrow> length r \<le> length s"
  by (auto simp: parsenum_def split: if_splits option.splits dest: parsenum_loop_len)

lemma argNumber_len: "argNumber s g = (r, f, g') \<Longrightarrow> length r \<le> length s"
  by (auto simp: argNumber_def split: list.splits if_splits prod.splits)

lemma decodeVerb_len: "decodeVerb s = (v, r) \<Longrightarrow> length r \<le> length s"
  by (cases s) (auto simp: Let_def split: if_splits)

lemma doWidth_len: "doWidth s a g = (out, r, a', g') \<Longrightarrow> length r \<le> length s"
  by (auto simp: doWidth_def split: list.splits if_splits prod.splits dest: parsenum_len)

lemma doPrecision_len: "doPrecision s a g = (out, r, a', g') \<Longrightarrow> length r \<le> length s"
  by (auto simp: doPrecision_def split: list.splits if_splits prod.splits
      dest!: parsenum_len argNumber_len)

lemma doVerb_len:
  assumes "doVerb s = (out, Some r)"
  shows "length r \<le> length s"
proof -
  obtain s2 a2 g2 where 2: "argNumber (dropWhile isFlag s) True = (s2, a2, g2)"
    by (metis prod_cases3)
  obtain o3 s3 a3 g3 where 3: "doWidth s2 a2 g2 = (o3, s3, a3, g3)"
    by (metis prod_cases4)
  obtain o6 s6 a6 g6 where 6: "doPrecision s3 a3 g3 = (o6, s6, a6, g6)"
    by (metis prod_cases4)
  obtain s7 a7 g7 where 7: "(if \<not> a6 then argNumber s6 g6 else (s6, a6, g6)) = (s7, a7, g7)"
    by (metis prod_cases3)
  obtain verb rest where 8: "decodeVerb s7 = (verb, rest)"
    by (metis surj_pair)
  from assms 2 3 6 7 8 have "r = rest"
    by (auto simp: doVerb_def split: if_splits)
  then have "length r \<le> length s7" using 8 by (simp add: decodeVerb_len)
  also have "\<dots> \<le> length s6" using 7 by (auto split: if_splits dest: argNumber_len)
  also have "\<dots> \<le> length s3" using 6 by (rule doPrecision_len)
  also have "\<dots> \<le> length s2" using 3 by (rule doWidth_len)
  also have "\<dots> \<le> length (dropWhile isFlag s)" using 2 by (rule argNumber_len)
  also have "\<dots> \<le> length s" by (rule length_dropWhile_le)
  finally show ?thesis .
qed

text \<open>
  The format loop of \<^verbatim>\<open>doPrintf\<close>: the bytes up to the next \<open>%\<close> are copied, then
  one verb is processed. \<open>Sprintf0 format\<close> is \<^verbatim>\<open>fmt.Sprintf(format)\<close>.
\<close>

function Sprintf0 :: "string \<Rightarrow> string" where
  "Sprintf0 format =
     (let lit = takeWhile (\<lambda>c. c \<noteq> CHR ''%'') format in
      case dropWhile (\<lambda>c. c \<noteq> CHR ''%'') format of
        [] \<Rightarrow> lit
      | _ # s0 \<Rightarrow>
          (case doVerb s0 of
             (out, None) \<Rightarrow> lit @ out
           | (out, Some r) \<Rightarrow> lit @ out @ Sprintf0 r))"
  by pat_completeness auto
termination
proof (relation "measure length")
  show "wf (measure length)" by simp
next
  fix format :: string and lit x21 x22 x y x2
  assume d: "dropWhile (\<lambda>c. c \<noteq> CHR ''%'') format = x21 # x22"
    and v: "(x, y) = doVerb x22" "y = Some x2"
  have "length x2 \<le> length x22" using v doVerb_len[of x22 x x2] by simp
  moreover have "length (x21 # x22) \<le> length format"
    using length_dropWhile_le[of "\<lambda>c. c \<noteq> CHR ''%''" format] d by simp
  ultimately show "(x2, format) \<in> measure length" by simp
qed

declare Sprintf0.simps [simp del]

text \<open>
  \<^verbatim>\<open>fmt.Sprintf(pre + "%s" + post, a)\<close> for a string operand \<open>a\<close> and constant texts
  \<open>pre\<close> and \<open>post\<close> without \<open>%\<close>: the verb \<open>%s\<close> without width or precision writes
  the bytes of its operand as they are. Every other format of the commands has this form.
\<close>

definition Sprintf_s :: "string \<Rightarrow> string \<Rightarrow> string \<Rightarrow> string" where
  "Sprintf_s pre a post = pre @ a @ post"

subsection \<open>cobra: the output stream and the argument check\<close>

text \<open>
  What a run of a command does to the outside: the text written to the command's output
  stream, and the calls of the pod executor (namespace, pod, container, command vector),
  both in the order they happen.
\<close>

record io =
  printed :: string
  execs :: "(string \<times> string \<times> string \<times> string list) list"

definition io0 :: io where
  "io0 = \<lparr>printed = [], execs = []\<rparr>"

text \<open>
  \<^verbatim>\<open>(*cobra.Command).Printf(format, i...)\<close> is \<^verbatim>\<open>c.Print(fmt.Sprintf(format, i...))\<close>, and
  \<^verbatim>\<open>Print\<close> writes that one string to the output stream.
\<close>

definition Print :: "string \<Rightarrow> io \<Rightarrow> io" where
  "Print text s = s\<lparr>printed := printed s @ text\<rparr>"

definition ExactArgs :: "nat \<Rightarrow> string list \<Rightarrow> error option" where
  "ExactArgs n args = (if length args \<noteq> n then Some (ExactArgsError n (length args)) else None)"

subsection \<open>unstructured.Unstructured\<close>

text \<open>
  The content of an unstructured object is a \<^verbatim>\<open>map[string]interface{}\<close> of JSON values
  (floating-point numbers are left out). \<^verbatim>\<open>GetName\<close> and \<^verbatim>\<open>GetNamespace\<close> read a nested
  string and give the empty string where the field is absent or is not a string.
\<close>

datatype jvalue =
    JNull
  | JBool bool
  | JInt int
  | JString string
  | JList "jvalue list"
  | JMap "(string \<times> jvalue) list"

type_synonym Unstructured = "(string \<times> jvalue) list"

fun NestedFieldNoCopy :: "jvalue \<Rightarrow> string list \<Rightarrow> jvalue option" where
  "NestedFieldNoCopy val [] = Some val"
| "NestedFieldNoCopy val (field # rest) =
     (case val of
        JMap m \<Rightarrow>
          (case map_of m field of
             None \<Rightarrow> None
           | Some v \<Rightarrow> NestedFieldNoCopy v rest)
      | _ \<Rightarrow> None)"

definition getNestedString :: "Unstructured \<Rightarrow> string list \<Rightarrow> string" where
  "getNestedString obj path =
     (case NestedFieldNoCopy (JMap obj) path of
        Some (JString s) \<Rightarrow> s
      | _ \<Rightarrow> [])"

definition GetName :: "Unstructured \<Rightarrow> string" where
  "GetName u = getNestedString u [''metadata'', ''name'']"

definition GetNamespace :: "Unstructured \<Rightarrow> string" where
  "GetNamespace u = getNestedString u [''metadata'', ''namespace'']"

section \<open>The collaborators of the commands\<close>

text \<open>
  The Kubernetes configuration, the dynamic client, the YAML decoder and package
  \<^verbatim>\<open>internal/util\<close> are outside \<^verbatim>\<open>internal/cmd\<close>. A command sees each of them
  through one call; the record holds what each call answers. \<open>'cfg\<close> is
  \<^verbatim>\<open>*rest.Config\<close> and \<open>'cli\<close> the dynamic client.
\<close>

record GroupVersionResource =
  Group :: string
  Version :: string
  Resource :: string

text \<open>
  The function that \<^verbatim>\<open>util.NewPodExecutor\<close> returns: from namespace, pod, container and
  command vector to the bytes written to the stdout and stderr writers and the error.
  Both commands pass \<^verbatim>\<open>nil\<close> for stdin.
\<close>

type_synonym podExecutor =
  "string \<Rightarrow> string \<Rightarrow> string \<Rightarrow> string list \<Rightarrow> string \<times> string \<times> error option"

record ('cfg, 'cli) kube =
  ToRESTConfig :: "error + 'cfg"
  NewForConfig :: "'cfg \<Rightarrow> error + 'cli"
  Namespace :: "error + string"
  ListResource :: "'cli \<Rightarrow> GroupVersionResource \<Rightarrow> string \<Rightarrow> string \<Rightarrow> error + Unstructured list"
  CreateResource :: "'cli \<Rightarrow> GroupVersionResource \<Rightarrow> string \<Rightarrow> Unstructured \<Rightarrow> error + Unstructured"
  Unmarshal :: "string \<Rightarrow> error + Unstructured"
  PrimaryInstanceLabels :: "string \<Rightarrow> string"
  ContainerDatabase :: string
  NewPodExecutor :: "'cfg \<Rightarrow> error + podExecutor"

section \<open>show.go\<close>

text \<open>
  \<^verbatim>\<open>type Executor func(stdin io.Reader, stdout, stderr io.Writer, command ...string) error\<close>.
  An executor acts on the outside, so it is a function on a state \<open>'s\<close>; it gives the
  bytes it wrote to \<open>stdout\<close> and \<open>stderr\<close> and its error.
\<close>

type_synonym 's Executor = "string list \<Rightarrow> 's \<Rightarrow> (string \<times> string \<times> error option) \<times> 's"

text \<open>
  \<^verbatim>\<open>func (exec Executor) pgBackRestInfo(output, repoNum string) (string, string, error)\<close>:
  the two buffers start empty, so the strings returned are what the executor wrote.
\<close>

definition pgBackRestInfo ::
  "'s Executor \<Rightarrow> string \<Rightarrow> string \<Rightarrow> 's \<Rightarrow> (string \<times> string \<times> error option) \<times> 's" where
  "pgBackRestInfo exec output repoNum =
     (let command = ''pgbackrest info --output='' @ output;
          command = (if repoNum \<noteq> [] then command @ '' --repo='' @ repoNum else command)
      in exec [''bash'', ''-ceu'', ''--'', command])"

text \<open>
  The flags \<^verbatim>\<open>--output\<close> (variable \<open>output\<close>, here \<open>outputFlag\<close>) and \<^verbatim>\<open>--repoName\<close>
  of \<^verbatim>\<open>show backup\<close>, and their defaults.
\<close>

record showBackupFlags =
  outputFlag :: string
  repoName :: string

definition defaultFlags :: showBackupFlags where
  "defaultFlags = \<lparr>outputFlag = ''text'', repoName = []\<rparr>"

definition podsGVR :: GroupVersionResource where
  "podsGVR = \<lparr>Group = [], Version = ''v1'', Resource = ''pods''\<rparr>"

text \<open>
  The closure \<open>exec\<close> of \<^verbatim>\<open>RunE\<close>: it calls \<open>PodExec\<close> for the one pod found, in the
  database container. The call is recorded in \<open>execs\<close>.
\<close>

definition podExec_closure :: "podExecutor \<Rightarrow> Unstructured \<Rightarrow> string \<Rightarrow> io Executor" where
  "podExec_closure PodExec pod container command s =
     (PodExec (GetNamespace pod) (GetName pod) container command,
      s\<lparr>execs := execs s @ [(GetNamespace pod, GetName pod, container, command)]\<rparr>)"

text \<open>\<^verbatim>\<open>cmdShowBackup.RunE\<close>, statement by statement.\<close>

definition showBackup_RunE ::
  "('cfg, 'cli) kube \<Rightarrow> showBackupFlags \<Rightarrow> string list \<Rightarrow> io \<Rightarrow> error option \<times> io" where
  "showBackup_RunE k fl args s =
     (let repoNum = TrimPrefix (repoName fl) ''repo'' in
      case ToRESTConfig k of Inl err \<Rightarrow> (Some err, s) | Inr config \<Rightarrow>
      case NewForConfig k config of Inl err \<Rightarrow> (Some err, s) | Inr client \<Rightarrow>
      case Namespace k of Inl err \<Rightarrow> (Some err, s) | Inr configNamespace \<Rightarrow>
      case args of [] \<Rightarrow> (Some IndexOutOfRange, s) | arg0 # _ \<Rightarrow>
      case ListResource k client podsGVR configNamespace (PrimaryInstanceLabels k arg0) of
        Inl err \<Rightarrow> (Some err, s) | Inr pods \<Rightarrow>
      if length pods \<noteq> 1 then (Some (Errorf ''Primary instance Pod not found.''), s) else
      case NewPodExecutor k config of Inl err \<Rightarrow> (Some err, s) | Inr PodExec \<Rightarrow>
      case pgBackRestInfo (podExec_closure PodExec (pods ! 0) (ContainerDatabase k))
             (outputFlag fl) repoNum s of
        ((stdout, stderr, err), s1) \<Rightarrow>
      case err of Some e \<Rightarrow> (Some e, s1) | None \<Rightarrow>
      (let s2 = Print (Sprintf0 stdout) s1;
           s3 = (if stderr \<noteq> [] then
                   Print (Sprintf_s (CHR 0x0A # ''Error returned: '') stderr [CHR 0x0A]) s2
                 else s2)
       in (None, s3)))"

text \<open>
  A run of \<^verbatim>\<open>show backup\<close>: cobra checks \<^verbatim>\<open>cmdShowBackup.Args = cobra.ExactArgs(1)\<close>
  and then calls \<^verbatim>\<open>RunE\<close>.
\<close>

definition showBackup ::
  "('cfg, 'cli) kube \<Rightarrow> showBackupFlags \<Rightarrow> string list \<Rightarrow> io \<Rightarrow> error option \<times> io" where
  "showBackup k fl args s =
     (case ExactArgs 1 args of
        Some err \<Rightarrow> (Some err, s)
      | None \<Rightarrow> showBackup_RunE k fl args s)"

section \<open>create.go\<close>

text \<open>
  The text that \<^verbatim>\<open>generateUnstructuredClusterYaml\<close> hands to \<^verbatim>\<open>yaml.Unmarshal\<close>: the
  raw string of the source, which starts with a line feed, with the name in the place of
  \<open>%s\<close>.
\<close>

definition lines :: "string list \<Rightarrow> string" where
  "lines ls = concat (map (\<lambda>l. l @ [CHR 0x0A]) ls)"

definition clusterYamlBefore :: string where
  "clusterYamlBefore =
     CHR 0x0A # lines
       [''apiVersion: postgres-operator.crunchydata.com/v1beta1'',
        ''kind: PostgresCluster'',
        ''metadata:''] @ ''  name: ''"

definition clusterYamlAfter :: string where
  "clusterYamlAfter =
     lines
       [[],
        ''spec:'',
        ''  postgresVersion: 14'',
        ''  instances:'',
        ''  - dataVolumeClaimSpec:'',
        ''      accessModes:'',
        ''      - '' @ [CHR 0x22] @ ''ReadWriteOnce'' @ [CHR 0x22],
        ''      resources:'',
        ''        requests:'',
        ''          storage: 1Gi'',
        ''  backups:'',
        ''    pgbackrest:'',
        ''      repos:'',
        ''      - name: repo1'',
        ''        volume:'',
        ''          volumeClaimSpec:'',
        ''            accessModes:'',
        ''            - '' @ [CHR 0x22] @ ''ReadWriteOnce'' @ [CHR 0x22],
        ''            resources:'',
        ''              requests:'',
        ''                storage: 1Gi'']"

text \<open>
  \<^verbatim>\<open>generateUnstructuredClusterYaml\<close>; the YAML decoder is the argument \<open>unmarshal\<close>.
\<close>

definition generateUnstructuredClusterYaml ::
  "(string \<Rightarrow> error + Unstructured) \<Rightarrow> string \<Rightarrow> error + Unstructured" where
  "generateUnstructuredClusterYaml unmarshal name =
     (case unmarshal (Sprintf_s clusterYamlBefore name clusterYamlAfter) of
        Inl err \<Rightarrow> Inl err
      | Inr cluster \<Rightarrow> Inr cluster)"

definition postgresclustersGVR :: GroupVersionResource where
  "postgresclustersGVR =
     \<lparr>Group = ''postgres-operator.crunchydata.com'', Version = ''v1beta1'',
      Resource = ''postgresclusters''\<rparr>"

text \<open>\<^verbatim>\<open>cmd.RunE\<close> of \<^verbatim>\<open>newCreateClusterCommand\<close>, statement by statement.\<close>

definition createCluster_RunE ::
  "('cfg, 'cli) kube \<Rightarrow> string list \<Rightarrow> io \<Rightarrow> error option \<times> io" where
  "createCluster_RunE k args s =
     (case args of [] \<Rightarrow> (Some IndexOutOfRange, s) | clusterName # _ \<Rightarrow>
      case Namespace k of Inl err \<Rightarrow> (Some err, s) | Inr namespace \<Rightarrow>
      case ToRESTConfig k of Inl err \<Rightarrow> (Some err, s) | Inr config \<Rightarrow>
      case NewForConfig k config of Inl err \<Rightarrow> (Some err, s) | Inr client \<Rightarrow>
      case generateUnstructuredClusterYaml (Unmarshal k) clusterName of
        Inl err \<Rightarrow> (Some err, s) | Inr cluster \<Rightarrow>
      case CreateResource k client postgresclustersGVR namespace cluster of
        Inl err \<Rightarrow> (Some err, s) | Inr u \<Rightarrow>
      (None,
       Print (Sprintf_s ''postgresclusters/'' (GetName u) ('' created'' @ [CHR 0x0A])) s))"

text \<open>
  A run of \<^verbatim>\<open>create postgrescluster\<close>: \<^verbatim>\<open>cmd.Args = cobra.ExactArgs(1)\<close>, then
  \<^verbatim>\<open>RunE\<close>.
\<close>

definition createCluster ::
  "('cfg, 'cli) kube \<Rightarrow> string list \<Rightarrow> io \<Rightarrow> error option \<times> io" where
  "createCluster k args s =
     (case ExactArgs 1 args of
        Some err \<Rightarrow> (Some err, s)
      | None \<Rightarrow> createCluster_RunE k args s)"

section \<open>Parts of the repository outside internal/cmd\<close>

text \<open>
  Modelled from the spec: \<^verbatim>\<open>util.NewPodExecutor\<close> (package \<^verbatim>\<open>internal/util\<close>) and the
  function it returns. The spec (4.3, 6 and 7) has the executor copy the remote stdout and
  stderr into the sinks and fail on a failure of the exec transport only: the exit status
  of the remote process "is NOT treated as a Go-level error". \<open>remote\<close> is what happened
  on the other side: the transport failed with an error (after some output, maybe), or the
  remote process ran and exited with a status.
\<close>

datatype remote =
    TransportFailed error string string
  | Exited int string string

definition specPodExecutor ::
  "(string \<Rightarrow> string \<Rightarrow> string \<Rightarrow> string list \<Rightarrow> remote) \<Rightarrow> podExecutor" where
  "specPodExecutor run namespace pod container command =
     (case run namespace pod container command of
        TransportFailed err out errOut \<Rightarrow> (out, errOut, Some err)
      | Exited status out errOut \<Rightarrow> (out, errOut, None))"

text \<open>
  Modelled from the spec: the exit code of the process, which \<^verbatim>\<open>main\<close> sets (7: every
  error is "surfaced as process-level failure"; 6: "exit code non-zero").
\<close>

definition exitCode :: "error option \<Rightarrow> int" where
  "exitCode r = (case r of None \<Rightarrow> 0 | Some err \<Rightarrow> 1)"

text \<open>
  Modelled from the spec: \<^verbatim>\<open>util.PrimaryInstanceLabels\<close>, the label selector of 4.2.
\<close>

definition specPrimaryInstanceLabels :: "string \<Rightarrow> string" where
  "specPrimaryInstanceLabels name =
     ''postgres-operator.crunchydata.com/cluster='' @ name @
     '',postgres-operator.crunchydata.com/data=postgres'' @
     '',postgres-operator.crunchydata.com/role=master''"

section \<open>Concrete clusters\<close>

text \<open>A pod, as the API server lists it, and the cluster object of the template.\<close>

definition pod :: "string \<Rightarrow> string \<Rightarrow> Unstructured" where
  "pod namespace name =
     [(''apiVersion'', JString ''v1''), (''kind'', JString ''Pod''),
      (''metadata'', JMap [(''name'', JString name), (''namespace'', JString namespace)])]"

definition volumeClaimSpec :: jvalue where
  "volumeClaimSpec =
     JMap [(''accessModes'', JList [JString ''ReadWriteOnce'']),
           (''resources'', JMap [(''requests'', JMap [(''storage'', JString ''1Gi'')])])]"

definition cluster :: "string \<Rightarrow> Unstructured" where
  "cluster name =
     [(''apiVersion'', JString ''postgres-operator.crunchydata.com/v1beta1''),
      (''kind'', JString ''PostgresCluster''),
      (''metadata'', JMap [(''name'', JString name)]),
      (''spec'', JMap
         [(''postgresVersion'', JInt 14),
          (''instances'', JList [JMap [(''dataVolumeClaimSpec'', volumeClaimSpec)]]),
          (''backups'', JMap [(''pgbackrest'', JMap [(''repos'', JList
             [JMap [(''name'', JString ''repo1''),
                    (''volume'', JMap [(''volumeClaimSpec'', volumeClaimSpec)])]])])])])]"

text \<open>
  A cluster in which everything answers: the configuration loads, the namespace is
  \<open>default\<close>, the selector of \<open>name\<close> finds the pods \<open>pods\<close>, and the pod executor
  answers every command with \<open>answer\<close>. The server creates what it is sent and echoes
  it; the YAML decoder knows the text of the template for \<open>name\<close> only.
\<close>

definition mockKube ::
  "string \<Rightarrow> Unstructured list \<Rightarrow> (string \<times> string \<times> error option) \<Rightarrow> (unit, unit) kube" where
  "mockKube name pods answer =
     \<lparr>ToRESTConfig = Inr (),
      NewForConfig = (\<lambda>config. Inr ()),
      Namespace = Inr ''default'',
      ListResource = (\<lambda>client gvr namespace selector.
        if gvr = podsGVR \<and> namespace = ''default'' \<and> selector = specPrimaryInstanceLabels name
        then Inr pods else Inr []),
      CreateResource = (\<lambda>client gvr namespace obj. Inr obj),
      Unmarshal = (\<lambda>text.
        if text = Sprintf_s clusterYamlBefore name clusterYamlAfter then Inr (cluster name)
        else Inl (Errorf ''yaml: not the template'')),
      PrimaryInstanceLabels = specPrimaryInstanceLabels,
      ContainerDatabase = ''database'',
      NewPodExecutor = (\<lambda>config. Inr (\<lambda>namespace pod container command. answer))\<rparr>"

text \<open>
  The same cluster with a configuration that does not load, and with the pod executor of
  the spec on a remote \<open>pgbackrest\<close> that writes to both streams and exits with
  status 55.
\<close>

definition brokenConfigKube :: "(unit, unit) kube" where
  "brokenConfigKube =
     (mockKube ''hippo'' [pod ''default'' ''hippo-a-0''] (''text info'', [], None))
       \<lparr>ToRESTConfig := Inl (Errorf ''invalid configuration'')\<rparr>"

definition remoteExitKube :: "(unit, unit) kube" where
  "remoteExitKube =
     (mockKube ''hippo'' [pod ''default'' ''hippo-a-0''] ([], [], None))
       \<lparr>NewPodExecutor := (\<lambda>config. Inr (specPodExecutor
          (\<lambda>namespace pod container command. Exited 55 ''text info'' ''no stanza'')))\<rparr>"

section \<open>Properties\<close>

subsection \<open>Auxiliary facts\<close>

lemma TrimPrefix_append: "TrimPrefix (pre @ s) pre = s"
  by (simp add: TrimPrefix_def HasPrefix_def)

lemma Sprintf0_no_percent:
  assumes "CHR ''%'' \<notin> set format"
  shows "Sprintf0 format = format"
proof -
  have tw: "takeWhile (\<lambda>c. c \<noteq> CHR ''%'') format = format"
    using assms by (auto simp: takeWhile_eq_all_conv)
  have dw: "dropWhile (\<lambda>c. c \<noteq> CHR ''%'') format = []"
    using assms by (auto simp: dropWhile_eq_Nil_conv)
  show ?thesis
    by (subst Sprintf0.simps) (simp add: tw dw)
qed

text \<open>What \<open>pgBackRestInfo\<close> does with the closure of \<^verbatim>\<open>RunE\<close>: one call of the pod executor.\<close>

lemma pgBackRestInfo_closure:
  "pgBackRestInfo (podExec_closure PodExec p container) output repoNum s =
     (PodExec (GetNamespace p) (GetName p) container
        [''bash'', ''-ceu'', ''--'',
         ''pgbackrest info --output='' @ output @
           (if repoNum \<noteq> [] then '' --repo='' @ repoNum else [])],
      s\<lparr>execs := execs s @
         [(GetNamespace p, GetName p, container,
           [''bash'', ''-ceu'', ''--'',
            ''pgbackrest info --output='' @ output @
              (if repoNum \<noteq> [] then '' --repo='' @ repoNum else [])])]\<rparr>)"
  by (simp add: pgBackRestInfo_def podExec_closure_def Let_def)

text \<open>The run from the call of \<open>pgBackRestInfo\<close> on, when every step before it succeeds.\<close>

lemma showBackup_after_lookup:
  assumes "ToRESTConfig k = Inr config" "NewForConfig k config = Inr client"
    "Namespace k = Inr ns"
    "ListResource k client podsGVR ns (PrimaryInstanceLabels k name) = Inr [p]"
    "NewPodExecutor k config = Inr PodExec"
  shows "showBackup k fl [name] s =
     (case pgBackRestInfo (podExec_closure PodExec p (ContainerDatabase k))
             (outputFlag fl) (TrimPrefix (repoName fl) ''repo'') s of
        ((stdout, stderr, err), s1) \<Rightarrow>
          (case err of
             Some e \<Rightarrow> (Some e, s1)
           | None \<Rightarrow>
               (None, s1\<lparr>printed := printed s1 @ Sprintf0 stdout @
                   (if stderr \<noteq> [] then CHR 0x0A # ''Error returned: '' @ stderr @ [CHR 0x0A]
                    else [])\<rparr>)))"
  using assms
  by (simp add: showBackup_def showBackup_RunE_def ExactArgs_def Print_def Sprintf_s_def Let_def
      split: option.splits prod.splits)

text \<open>The one call of the pod executor that a run makes once the pod is found.\<close>

lemma showBackup_execs:
  assumes "ToRESTConfig k = Inr config" "NewForConfig k config = Inr client"
    "Namespace k = Inr ns"
    "ListResource k client podsGVR ns (PrimaryInstanceLabels k name) = Inr [p]"
    "NewPodExecutor k config = Inr PodExec"
  shows "execs (snd (showBackup k fl [name] s)) =
     execs s @ [(GetNamespace p, GetName p, ContainerDatabase k,
        [''bash'', ''-ceu'', ''--'',
         ''pgbackrest info --output='' @ outputFlag fl @
           (if TrimPrefix (repoName fl) ''repo'' \<noteq> []
            then '' --repo='' @ TrimPrefix (repoName fl) ''repo'' else [])])]"
  unfolding showBackup_after_lookup [OF assms] pgBackRestInfo_closure
  by (simp split: option.splits prod.splits)

text \<open>The steps of a run in the concrete cluster.\<close>

lemma mockKube_steps:
  "ToRESTConfig (mockKube name pods answer) = Inr ()"
  "NewForConfig (mockKube name pods answer) () = Inr ()"
  "Namespace (mockKube name pods answer) = Inr ''default''"
  "ListResource (mockKube name pods answer) () podsGVR ''default''
     (PrimaryInstanceLabels (mockKube name pods answer) name) = Inr pods"
  "NewPodExecutor (mockKube name pods answer) () =
     Inr (\<lambda>namespace pod container command. answer)"
  by (simp_all add: mockKube_def)

lemma pod_names: "GetName (pod namespace name) = name" "GetNamespace (pod namespace name) = namespace"
  by (simp_all add: pod_def GetName_def GetNamespace_def getNestedString_def)

lemma GetName_cluster: "GetName (cluster name) = name"
  by (simp add: cluster_def GetName_def getNestedString_def)

subsection \<open>The primary instance pod\<close>

text \<open>
  C1 (as amended). When the configuration, the client and the namespace are there and the
  lookup by the primary-instance labels answers with a number of pods other than 1, a run
  of \<^verbatim>\<open>show backup\<close> returns the error with the message
  \<open>Primary instance Pod not found.\<close> (the message ends with a full stop) and leaves the
  state as it was: no pod executor was called and nothing was printed. The error does not
  depend on the pods, so it is the same for no pod and for several.
\<close>

theorem showBackup_pod_count:
  assumes "ToRESTConfig k = Inr config" "NewForConfig k config = Inr client"
    "Namespace k = Inr ns"
    "ListResource k client podsGVR ns (PrimaryInstanceLabels k name) = Inr pods"
    "length pods \<noteq> 1"
  shows "showBackup k fl [name] s = (Some (Errorf ''Primary instance Pod not found.''), s)"
  using assms
  by (simp add: showBackup_def showBackup_RunE_def ExactArgs_def Let_def)

text \<open>The theorem at no pod and at two pods.\<close>

theorem showBackup_pod_count_witness:
  "showBackup (mockKube ''hippo'' [] (''text info'', [], None)) defaultFlags [''hippo''] io0 =
     (Some (Errorf ''Primary instance Pod not found.''), io0)
   \<and> showBackup (mockKube ''hippo'' [pod ''default'' ''hippo-a-0'', pod ''default'' ''hippo-b-0'']
        (''text info'', [], None)) defaultFlags [''hippo''] io0 =
     (Some (Errorf ''Primary instance Pod not found.''), io0)"
proof -
  have none:
    "showBackup (mockKube ''hippo'' [] (''text info'', [], None)) defaultFlags [''hippo''] io0 =
       (Some (Errorf ''Primary instance Pod not found.''), io0)"
    by (rule showBackup_pod_count
          [where config = "()" and client = "()" and ns = "''default''" and pods = "[]"])
       (simp_all add: mockKube_def)
  have two:
    "showBackup (mockKube ''hippo'' [pod ''default'' ''hippo-a-0'', pod ''default'' ''hippo-b-0'']
        (''text info'', [], None)) defaultFlags [''hippo''] io0 =
       (Some (Errorf ''Primary instance Pod not found.''), io0)"
    by (rule showBackup_pod_count
          [where config = "()" and client = "()" and ns = "''default''"
             and pods = "[pod ''default'' ''hippo-a-0'', pod ''default'' ''hippo-b-0'']"])
       (simp_all add: mockKube_def)
  from none two show ?thesis by simp
qed

text \<open>
  The message of C1 as the claim quotes it, without the full stop, is not the message of
  the error that is returned.
\<close>

theorem showBackup_message_counterexample:
  "fst (showBackup (mockKube ''hippo'' [] (''text info'', [], None)) defaultFlags [''hippo''] io0)
     \<noteq> Some (Errorf ''Primary instance Pod not found'')"
  by (simp add: showBackup_def showBackup_RunE_def ExactArgs_def Let_def mockKube_def)

subsection \<open>The command that is executed\<close>

text \<open>
  C6. For every output format \<open>output\<close> and repository number \<open>repoNum\<close>,
  \<open>pgBackRestInfo\<close> calls its executor once, with the command vector
  \<open>bash -ceu -- command\<close> (the shell wrapper), where \<open>command\<close> is
  \<open>pgbackrest info --output=\<close> followed by \<open>output\<close>, and then by \<open> --repo=\<close> and
  \<open>repoNum\<close> exactly when \<open>repoNum\<close> is not empty; what the executor answers is the
  result.
\<close>

theorem pgBackRestInfo_command:
  "pgBackRestInfo exec output repoNum s =
     exec [''bash'', ''-ceu'', ''--'',
           ''pgbackrest info --output='' @ output @
             (if repoNum \<noteq> [] then '' --repo='' @ repoNum else [])] s"
  by (simp add: pgBackRestInfo_def Let_def)

text \<open>
  The theorem at \<^verbatim>\<open>--output=json\<close>, without and with a repository number, for an
  executor that echoes its command vector; the command contains \<open>--output=json\<close>.
\<close>

theorem pgBackRestInfo_command_witness:
  "pgBackRestInfo (\<lambda>command s. ((concat command, [], None), s)) ''json'' [] io0 =
     ((''bash-ceu--pgbackrest info --output=json'', [], None), io0)
   \<and> pgBackRestInfo (\<lambda>command s. ((concat command, [], None), s)) ''json'' ''2'' io0 =
     ((''bash-ceu--pgbackrest info --output=json --repo=2'', [], None), io0)
   \<and> sublist ''--output=json'' ''pgbackrest info --output=json''"
proof -
  have "sublist ''--output=json'' (''pgbackrest info '' @ ''--output=json'' @ [])"
    by (rule sublist_appendI)
  then show ?thesis
    using pgBackRestInfo_command [of "\<lambda>command s. ((concat command, [], None), s)" "''json''" "[]" io0]
      pgBackRestInfo_command [of "\<lambda>command s. ((concat command, [], None), s)" "''json''" "''2''" io0]
    by simp
qed

text \<open>
  C4. When the flag \<^verbatim>\<open>--repoName\<close> is \<open>repo\<close> followed by a non-empty \<open>sfx\<close> and the
  run reaches the pod executor, the executor is called once, for the pod found, with the
  command \<open>pgbackrest info --output=<output> --repo=<sfx>\<close> in the shell wrapper, which
  contains \<open>--repo=<sfx>\<close>: the prefix \<open>repo\<close> is gone and \<open>sfx\<close> is passed as it
  is, whatever its bytes are. (The
  value \<open>repo\<close> alone, with nothing after the prefix, is the subject of C9.)
\<close>

theorem showBackup_repoName_stripped:
  assumes "ToRESTConfig k = Inr config" "NewForConfig k config = Inr client"
    "Namespace k = Inr ns"
    "ListResource k client podsGVR ns (PrimaryInstanceLabels k name) = Inr [p]"
    "NewPodExecutor k config = Inr PodExec"
    "repoName fl = ''repo'' @ sfx" "sfx \<noteq> []"
  shows "execs (snd (showBackup k fl [name] s)) =
     execs s @ [(GetNamespace p, GetName p, ContainerDatabase k,
        [''bash'', ''-ceu'', ''--'',
         ''pgbackrest info --output='' @ outputFlag fl @ '' --repo='' @ sfx])]
    \<and> sublist (''--repo='' @ sfx)
         (''pgbackrest info --output='' @ outputFlag fl @ '' --repo='' @ sfx)"
proof
  have "TrimPrefix (repoName fl) ''repo'' = sfx"
    using assms(6) TrimPrefix_append [of "''repo''" sfx] by simp
  then show "execs (snd (showBackup k fl [name] s)) =
     execs s @ [(GetNamespace p, GetName p, ContainerDatabase k,
        [''bash'', ''-ceu'', ''--'',
         ''pgbackrest info --output='' @ outputFlag fl @ '' --repo='' @ sfx])]"
    using assms(7) by (simp add: showBackup_execs [OF assms(1-5)])
  have "sublist (''--repo='' @ sfx)
     ((''pgbackrest info --output='' @ outputFlag fl @ '' '') @ (''--repo='' @ sfx) @ [])"
    by (rule sublist_appendI)
  then show "sublist (''--repo='' @ sfx)
         (''pgbackrest info --output='' @ outputFlag fl @ '' --repo='' @ sfx)"
    by simp
qed

text \<open>The theorem at \<^verbatim>\<open>--repoName=repo2\<close> and at a suffix that is no number.\<close>

theorem showBackup_repoName_stripped_witness:
  "execs (snd (showBackup (mockKube ''hippo'' [pod ''default'' ''hippo-a-0''] (''text info'', [], None))
       \<lparr>outputFlag = ''text'', repoName = ''repo2''\<rparr> [''hippo''] io0)) =
     [(''default'', ''hippo-a-0'', ''database'',
       [''bash'', ''-ceu'', ''--'', ''pgbackrest info --output=text --repo=2''])]
   \<and> execs (snd (showBackup (mockKube ''hippo'' [pod ''default'' ''hippo-a-0''] (''text info'', [], None))
       \<lparr>outputFlag = ''text'', repoName = ''repo-x y''\<rparr> [''hippo''] io0)) =
     [(''default'', ''hippo-a-0'', ''database'',
       [''bash'', ''-ceu'', ''--'', ''pgbackrest info --output=text --repo=-x y''])]"
proof -
  let ?k = "mockKube ''hippo'' [pod ''default'' ''hippo-a-0''] (''text info'', [], None)"
  have a: "ToRESTConfig ?k = Inr ()" "NewForConfig ?k () = Inr ()" "Namespace ?k = Inr ''default''"
    "ListResource ?k () podsGVR ''default'' (PrimaryInstanceLabels ?k ''hippo'') = Inr [pod ''default'' ''hippo-a-0'']"
    "NewPodExecutor ?k () = Inr (\<lambda>namespace pod container command. (''text info'', [], None))"
    by (simp_all add: mockKube_def)
  show ?thesis
    using showBackup_repoName_stripped [OF a, where fl = "\<lparr>outputFlag = ''text'', repoName = ''repo2''\<rparr>" and sfx = "''2''" and s = io0]
      showBackup_repoName_stripped [OF a, where fl = "\<lparr>outputFlag = ''text'', repoName = ''repo-x y''\<rparr>" and sfx = "''-x y''" and s = io0]
    by (simp add: io0_def mockKube_def pod_def GetName_def GetNamespace_def getNestedString_def)
qed

text \<open>
  C9. In a run of \<^verbatim>\<open>show backup\<close> that reaches the pod executor: when
  \<^verbatim>\<open>--repoName\<close> is empty or is exactly \<open>repo\<close>, the repository number that \<^verbatim>\<open>RunE\<close>
  derives is empty and the one command the executor is handed is
  \<open>pgbackrest info --output=<output>\<close>, with no \<open>--repo=\<close>; moreover every run with such
  a value, whatever its arguments and cluster, is the run with the flag left out (its
  default is the empty string). When the value is not empty and does not start with
  \<open>repo\<close>, the repository number is the whole value and the command the executor is
  handed ends in \<open> --repo=\<close> followed by the value, unchanged.
\<close>

theorem repoName_without_number:
  assumes "ToRESTConfig k = Inr config" "NewForConfig k config = Inr client"
    "Namespace k = Inr ns"
    "ListResource k client podsGVR ns (PrimaryInstanceLabels k name) = Inr [p]"
    "NewPodExecutor k config = Inr PodExec"
  shows "(repoName fl = [] \<or> repoName fl = ''repo'' \<longrightarrow>
      TrimPrefix (repoName fl) ''repo'' = []
      \<and> execs (snd (showBackup k fl [name] s)) =
          execs s @ [(GetNamespace p, GetName p, ContainerDatabase k,
             [''bash'', ''-ceu'', ''--'', ''pgbackrest info --output='' @ outputFlag fl])]
      \<and> showBackup k fl args s' = showBackup k (fl\<lparr>repoName := []\<rparr>) args s')
   \<and> (\<not> HasPrefix (repoName fl) ''repo'' \<and> repoName fl \<noteq> [] \<longrightarrow>
      TrimPrefix (repoName fl) ''repo'' = repoName fl
      \<and> execs (snd (showBackup k fl [name] s)) =
          execs s @ [(GetNamespace p, GetName p, ContainerDatabase k,
             [''bash'', ''-ceu'', ''--'',
              ''pgbackrest info --output='' @ outputFlag fl @ '' --repo='' @ repoName fl])])"
proof (intro conjI impI)
  assume a: "repoName fl = [] \<or> repoName fl = ''repo''"
  then show t: "TrimPrefix (repoName fl) ''repo'' = []"
    by (auto simp: TrimPrefix_def HasPrefix_def)
  then show "execs (snd (showBackup k fl [name] s)) =
          execs s @ [(GetNamespace p, GetName p, ContainerDatabase k,
             [''bash'', ''-ceu'', ''--'', ''pgbackrest info --output='' @ outputFlag fl])]"
    by (simp add: showBackup_execs [OF assms])
  have r: "repoName (fl\<lparr>repoName := []\<rparr>) = []"
    and f: "outputFlag (fl\<lparr>repoName := []\<rparr>) = outputFlag fl"
    by simp_all
  have e: "TrimPrefix [] ''repo'' = []"
    by (simp add: TrimPrefix_def HasPrefix_def)
  show "showBackup k fl args s' = showBackup k (fl\<lparr>repoName := []\<rparr>) args s'"
    unfolding showBackup_def showBackup_RunE_def r f e t by (rule refl)
next
  assume b: "\<not> HasPrefix (repoName fl) ''repo'' \<and> repoName fl \<noteq> []"
  then show t: "TrimPrefix (repoName fl) ''repo'' = repoName fl"
    by (simp add: TrimPrefix_def)
  with b show "execs (snd (showBackup k fl [name] s)) =
          execs s @ [(GetNamespace p, GetName p, ContainerDatabase k,
             [''bash'', ''-ceu'', ''--'',
              ''pgbackrest info --output='' @ outputFlag fl @ '' --repo='' @ repoName fl])]"
    by (simp add: showBackup_execs [OF assms])
qed

text \<open>
  The theorem at \<^verbatim>\<open>--repoName=repo\<close>, at the empty value and at \<^verbatim>\<open>--repoName=2\<close>.
\<close>

theorem repoName_without_number_witness:
  "execs (snd (showBackup (mockKube ''hippo'' [pod ''default'' ''hippo-a-0''] (''text info'', [], None))
        \<lparr>outputFlag = ''text'', repoName = ''repo''\<rparr> [''hippo''] io0)) =
     [(''default'', ''hippo-a-0'', ''database'',
       [''bash'', ''-ceu'', ''--'', ''pgbackrest info --output=text''])]
   \<and> showBackup (mockKube ''hippo'' [pod ''default'' ''hippo-a-0''] (''text info'', [], None))
        \<lparr>outputFlag = ''text'', repoName = ''repo''\<rparr> [''hippo''] io0 =
      showBackup (mockKube ''hippo'' [pod ''default'' ''hippo-a-0''] (''text info'', [], None))
        \<lparr>outputFlag = ''text'', repoName = []\<rparr> [''hippo''] io0
   \<and> execs (snd (showBackup (mockKube ''hippo'' [pod ''default'' ''hippo-a-0''] (''text info'', [], None))
        \<lparr>outputFlag = ''text'', repoName = []\<rparr> [''hippo''] io0)) =
     [(''default'', ''hippo-a-0'', ''database'',
       [''bash'', ''-ceu'', ''--'', ''pgbackrest info --output=text''])]
   \<and> \<not> HasPrefix ''2'' ''repo''
   \<and> execs (snd (showBackup (mockKube ''hippo'' [pod ''default'' ''hippo-a-0''] (''text info'', [], None))
        \<lparr>outputFlag = ''text'', repoName = ''2''\<rparr> [''hippo''] io0)) =
     [(''default'', ''hippo-a-0'', ''database'',
       [''bash'', ''-ceu'', ''--'', ''pgbackrest info --output=text --repo=2''])]"
proof -
  let ?k = "mockKube ''hippo'' [pod ''default'' ''hippo-a-0''] (''text info'', [], None)"
  note steps = mockKube_steps
    [of "''hippo''" "[pod ''default'' ''hippo-a-0'']" "(''text info'', [], None)"]
  have c: "ContainerDatabase ?k = ''database''"
    by (simp add: mockKube_def)
  have n: "\<not> HasPrefix ''2'' ''repo''"
    by (simp add: HasPrefix_def)
  have d: "repoName \<lparr>outputFlag = ''text'', repoName = ''repo''\<rparr> = []
      \<or> repoName \<lparr>outputFlag = ''text'', repoName = ''repo''\<rparr> = ''repo''"
    by simp
  note A = repoName_without_number
         [OF steps, where fl = "\<lparr>outputFlag = ''text'', repoName = ''repo''\<rparr>"
            and s = io0 and args = "[''hippo'']" and s' = io0,
          THEN conjunct1, rule_format, OF d]
  from A [THEN conjunct2, THEN conjunct1]
  have a1: "execs (snd (showBackup ?k \<lparr>outputFlag = ''text'', repoName = ''repo''\<rparr> [''hippo''] io0)) =
             [(''default'', ''hippo-a-0'', ''database'',
               [''bash'', ''-ceu'', ''--'', ''pgbackrest info --output=text''])]"
    by (simp add: c pod_names io0_def)
  from A [THEN conjunct2, THEN conjunct2]
  have a2: "showBackup ?k \<lparr>outputFlag = ''text'', repoName = ''repo''\<rparr> [''hippo''] io0 =
             showBackup ?k \<lparr>outputFlag = ''text'', repoName = []\<rparr> [''hippo''] io0"
    by simp
  from n repoName_without_number
         [OF steps, where fl = "\<lparr>outputFlag = ''text'', repoName = ''2''\<rparr>"
            and s = io0]
  have b: "execs (snd (showBackup ?k \<lparr>outputFlag = ''text'', repoName = ''2''\<rparr> [''hippo''] io0)) =
             [(''default'', ''hippo-a-0'', ''database'',
               [''bash'', ''-ceu'', ''--'', ''pgbackrest info --output=text --repo=2''])]"
    by (simp add: c pod_names io0_def)
  from repoName_without_number
         [OF steps, where fl = "\<lparr>outputFlag = ''text'', repoName = []\<rparr>" and s = io0]
  have e: "execs (snd (showBackup ?k \<lparr>outputFlag = ''text'', repoName = []\<rparr> [''hippo''] io0)) =
             [(''default'', ''hippo-a-0'', ''database'',
               [''bash'', ''-ceu'', ''--'', ''pgbackrest info --output=text''])]"
    by (simp add: c pod_names io0_def)
  from a1 a2 e n b show ?thesis
    by (intro conjI)
qed

subsection \<open>What is printed\<close>

text \<open>
  C10. When the run reaches the pod executor and the executor returns an error, the run
  returns that error and the output stream is as it was before the run: neither the
  captured stdout nor the captured stderr is printed, whatever they hold.
\<close>

theorem showBackup_exec_error:
  assumes "ToRESTConfig k = Inr config" "NewForConfig k config = Inr client"
    "Namespace k = Inr ns"
    "ListResource k client podsGVR ns (PrimaryInstanceLabels k name) = Inr [p]"
    "NewPodExecutor k config = Inr PodExec"
    "pgBackRestInfo (podExec_closure PodExec p (ContainerDatabase k))
       (outputFlag fl) (TrimPrefix (repoName fl) ''repo'') s = ((stdout, stderr, Some e), s1)"
  shows "fst (showBackup k fl [name] s) = Some e
    \<and> printed (snd (showBackup k fl [name] s)) = printed s"
  using assms(6)
  by (auto simp add: showBackup_after_lookup [OF assms(1-5)] pgBackRestInfo_closure)

text \<open>The theorem at an executor that fails after it has written to both streams.\<close>

theorem showBackup_exec_error_witness:
  "fst (showBackup
      (mockKube ''hippo'' [pod ''default'' ''hippo-a-0'']
         (''partial output'', ''stream broken'', Some (Errorf ''unable to upgrade connection'')))
      defaultFlags [''hippo''] io0) = Some (Errorf ''unable to upgrade connection'')
   \<and> printed (snd (showBackup
      (mockKube ''hippo'' [pod ''default'' ''hippo-a-0'']
         (''partial output'', ''stream broken'', Some (Errorf ''unable to upgrade connection'')))
      defaultFlags [''hippo''] io0)) = []"
proof -
  let ?answer = "(''partial output'', ''stream broken'', Some (Errorf ''unable to upgrade connection''))"
  let ?k = "mockKube ''hippo'' [pod ''default'' ''hippo-a-0''] ?answer"
  have "pgBackRestInfo
      (podExec_closure (\<lambda>namespace pod container command. ?answer) (pod ''default'' ''hippo-a-0'')
         (ContainerDatabase ?k))
      (outputFlag defaultFlags) (TrimPrefix (repoName defaultFlags) ''repo'') io0 =
    (?answer, snd (pgBackRestInfo
      (podExec_closure (\<lambda>namespace pod container command. ?answer) (pod ''default'' ''hippo-a-0'')
         (ContainerDatabase ?k))
      (outputFlag defaultFlags) (TrimPrefix (repoName defaultFlags) ''repo'') io0))"
    by (simp add: pgBackRestInfo_closure)
  from showBackup_exec_error [OF mockKube_steps this]
  show ?thesis by (simp add: io0_def)
qed

text \<open>
  C5. When the run reaches the pod executor and the executor returns no error, the run
  succeeds and prints first what \<^verbatim>\<open>cmd.Printf(stdout)\<close> makes of the captured stdout and
  then, exactly when the captured stderr is not empty, a line feed and the line
  \<open>Error returned: <stderr>\<close>, ended by a line feed. When stderr is empty nothing follows
  the stdout content.
\<close>

theorem showBackup_prints:
  assumes "ToRESTConfig k = Inr config" "NewForConfig k config = Inr client"
    "Namespace k = Inr ns"
    "ListResource k client podsGVR ns (PrimaryInstanceLabels k name) = Inr [p]"
    "NewPodExecutor k config = Inr PodExec"
    "pgBackRestInfo (podExec_closure PodExec p (ContainerDatabase k))
       (outputFlag fl) (TrimPrefix (repoName fl) ''repo'') s = ((stdout, stderr, None), s1)"
  shows "fst (showBackup k fl [name] s) = None
    \<and> printed (snd (showBackup k fl [name] s)) =
        printed s @ Sprintf0 stdout @
          (if stderr \<noteq> [] then CHR 0x0A # ''Error returned: '' @ stderr @ [CHR 0x0A] else [])"
  using assms(6)
  by (auto simp add: showBackup_after_lookup [OF assms(1-5)] pgBackRestInfo_closure)

text \<open>The theorem at a non-empty and at an empty stderr.\<close>

theorem showBackup_prints_witness:
  "printed (snd (showBackup
      (mockKube ''hippo'' [pod ''default'' ''hippo-a-0''] (''text info'', ''a warning'', None))
      defaultFlags [''hippo''] io0)) =
     ''text info'' @ [CHR 0x0A] @ ''Error returned: a warning'' @ [CHR 0x0A]
   \<and> printed (snd (showBackup
      (mockKube ''hippo'' [pod ''default'' ''hippo-a-0''] (''text info'', [], None))
      defaultFlags [''hippo''] io0)) = ''text info''"
proof -
  have p: "Sprintf0 ''text info'' = ''text info''"
    by (rule Sprintf0_no_percent) simp
  have a: "pgBackRestInfo
      (podExec_closure (\<lambda>namespace pod container command. (out, errOut, None)) q c) f r io0 =
    ((out, errOut, None), snd (pgBackRestInfo
      (podExec_closure (\<lambda>namespace pod container command. (out, errOut, None)) q c) f r io0))"
    for out errOut q c f r
    by (simp add: pgBackRestInfo_closure)
  from showBackup_prints [OF mockKube_steps a] showBackup_prints [OF mockKube_steps a] p
  show ?thesis by (simp add: io0_def)
qed

text \<open>
  C3. The captured stdout is not printed as it is: it is the format of
  \<^verbatim>\<open>cmd.Printf(stdout)\<close>. When the remote command writes \<open>100%\<close> (and nothing to
  stderr), the run prints \<open>100%!(NOVERB)\<close>.
\<close>

theorem showBackup_percent_stdout:
  "showBackup (mockKube ''hippo'' [pod ''default'' ''hippo-a-0''] (''100%'', [], None))
     defaultFlags [''hippo''] io0 =
   (None, \<lparr>printed = ''100%!(NOVERB)'',
           execs = [(''default'', ''hippo-a-0'', ''database'',
                     [''bash'', ''-ceu'', ''--'', ''pgbackrest info --output=text''])]\<rparr>)"
proof -
  let ?k = "mockKube ''hippo'' [pod ''default'' ''hippo-a-0''] (''100%'', [], None)"
  have f: "Sprintf0 ''100%'' = ''100%!(NOVERB)''"
    by code_simp
  have c: "ContainerDatabase ?k = ''database''"
    by (simp add: mockKube_def)
  have t: "TrimPrefix (repoName defaultFlags) ''repo'' = []"
    by (simp add: defaultFlags_def TrimPrefix_def HasPrefix_def)
  show ?thesis
    unfolding showBackup_after_lookup [OF mockKube_steps] pgBackRestInfo_closure c t pod_names
    by (simp add: f defaultFlags_def io0_def)
qed

subsection \<open>Failures of a run\<close>

text \<open>
  C2 (as amended). A run of \<^verbatim>\<open>show backup\<close> returns an error \<open>e\<close>, and the process
  exits with a code other than 0, only when one of its steps fails with \<open>e\<close>: the
  argument check, the load of the configuration, the construction of the client, the
  namespace, the list of the pods, the count of the pods (then \<open>e\<close> is the error of C1),
  the construction of the pod executor, or the call of the pod executor. With the pod
  executor of the spec, a remote command that runs and exits, with whatever status, is no
  failure: the run returns no error, the exit code is 0 and the captured output is printed.
\<close>

theorem showBackup_failures:
  "(fst (showBackup k fl args s) = Some e \<longrightarrow>
      ExactArgs 1 args = Some e
      \<or> ToRESTConfig k = Inl e
      \<or> (\<exists>config. ToRESTConfig k = Inr config \<and> NewForConfig k config = Inl e)
      \<or> Namespace k = Inl e
      \<or> (\<exists>client ns name.
            ListResource k client podsGVR ns (PrimaryInstanceLabels k name) = Inl e)
      \<or> (\<exists>client ns name pods.
            ListResource k client podsGVR ns (PrimaryInstanceLabels k name) = Inr pods
            \<and> length pods \<noteq> 1 \<and> e = Errorf ''Primary instance Pod not found.'')
      \<or> (\<exists>config. ToRESTConfig k = Inr config \<and> NewPodExecutor k config = Inl e)
      \<or> (\<exists>config PodExec namespace pod container command out errOut.
            NewPodExecutor k config = Inr PodExec
            \<and> PodExec namespace pod container command = (out, errOut, Some e)))
   \<and> (ToRESTConfig k = Inr config \<and> NewForConfig k config = Inr client
      \<and> Namespace k = Inr ns
      \<and> ListResource k client podsGVR ns (PrimaryInstanceLabels k name) = Inr [p]
      \<and> NewPodExecutor k config = Inr (specPodExecutor run)
      \<and> run (GetNamespace p) (GetName p) (ContainerDatabase k)
           [''bash'', ''-ceu'', ''--'',
            ''pgbackrest info --output='' @ outputFlag fl @
              (if TrimPrefix (repoName fl) ''repo'' \<noteq> []
               then '' --repo='' @ TrimPrefix (repoName fl) ''repo'' else [])]
          = Exited status out errOut
      \<longrightarrow>
        fst (showBackup k fl [name] s) = None
        \<and> exitCode (fst (showBackup k fl [name] s)) = 0
        \<and> printed (snd (showBackup k fl [name] s)) =
            printed s @ Sprintf0 out @
              (if errOut \<noteq> [] then CHR 0x0A # ''Error returned: '' @ errOut @ [CHR 0x0A]
               else []))"
proof (intro conjI impI)
  assume E: "fst (showBackup k fl args s) = Some e"
  show "ExactArgs 1 args = Some e
      \<or> ToRESTConfig k = Inl e
      \<or> (\<exists>config. ToRESTConfig k = Inr config \<and> NewForConfig k config = Inl e)
      \<or> Namespace k = Inl e
      \<or> (\<exists>client ns name.
            ListResource k client podsGVR ns (PrimaryInstanceLabels k name) = Inl e)
      \<or> (\<exists>client ns name pods.
            ListResource k client podsGVR ns (PrimaryInstanceLabels k name) = Inr pods
            \<and> length pods \<noteq> 1 \<and> e = Errorf ''Primary instance Pod not found.'')
      \<or> (\<exists>config. ToRESTConfig k = Inr config \<and> NewPodExecutor k config = Inl e)
      \<or> (\<exists>config PodExec namespace pod container command out errOut.
            NewPodExecutor k config = Inr PodExec
            \<and> PodExec namespace pod container command = (out, errOut, Some e))"
    (is ?sources)
  proof (cases "ExactArgs 1 args")
    case (Some x)
    with E show ?sources by (simp add: showBackup_def)
  next
    case None
    then obtain arg0 where args: "args = [arg0]"
      by (cases args) (auto simp: ExactArgs_def split: if_splits)
    from E None have R: "fst (showBackup_RunE k fl [arg0] s) = Some e"
      by (simp add: showBackup_def args)
    show ?sources
    proof (cases "ToRESTConfig k")
      case (Inl x)
      with R show ?sources by (simp add: showBackup_RunE_def)
    next
      case c: (Inr cfg)
      show ?sources
      proof (cases "NewForConfig k cfg")
        case (Inl x)
        with R c have "x = e" by (simp add: showBackup_RunE_def)
        with Inl c show ?sources by blast
      next
        case cl: (Inr cli)
        show ?sources
        proof (cases "Namespace k")
          case (Inl x)
          with R c cl show ?sources by (simp add: showBackup_RunE_def)
        next
          case n: (Inr nsp)
          show ?sources
          proof (cases "ListResource k cli podsGVR nsp (PrimaryInstanceLabels k arg0)")
            case (Inl x)
            with R c cl n have "x = e" by (simp add: showBackup_RunE_def)
            with Inl show ?sources by blast
          next
            case l: (Inr pods)
            show ?sources
            proof (cases "length pods = 1")
              case False
              with R c cl n l have "e = Errorf ''Primary instance Pod not found.''"
                by (simp add: showBackup_RunE_def)
              with l False show ?sources by blast
            next
              case True
              then obtain q where q: "pods = [q]"
                by (cases pods) auto
              show ?sources
              proof (cases "NewPodExecutor k cfg")
                case (Inl x)
                with R c cl n l True have "x = e" by (simp add: showBackup_RunE_def)
                with Inl c show ?sources by blast
              next
                case pe: (Inr PodExec)
                obtain out' errOut' err where
                  r: "pgBackRestInfo (podExec_closure PodExec q (ContainerDatabase k))
                        (outputFlag fl) (TrimPrefix (repoName fl) ''repo'') s =
                      (PodExec (GetNamespace q) (GetName q) (ContainerDatabase k)
                         [''bash'', ''-ceu'', ''--'',
                          ''pgbackrest info --output='' @ outputFlag fl @
                            (if TrimPrefix (repoName fl) ''repo'' \<noteq> []
                             then '' --repo='' @ TrimPrefix (repoName fl) ''repo'' else [])],
                       s\<lparr>execs := execs s @
                         [(GetNamespace q, GetName q, ContainerDatabase k,
                           [''bash'', ''-ceu'', ''--'',
                            ''pgbackrest info --output='' @ outputFlag fl @
                              (if TrimPrefix (repoName fl) ''repo'' \<noteq> []
                               then '' --repo='' @ TrimPrefix (repoName fl) ''repo''
                               else [])])]\<rparr>)"
                  and v: "PodExec (GetNamespace q) (GetName q) (ContainerDatabase k)
                         [''bash'', ''-ceu'', ''--'',
                          ''pgbackrest info --output='' @ outputFlag fl @
                            (if TrimPrefix (repoName fl) ''repo'' \<noteq> []
                             then '' --repo='' @ TrimPrefix (repoName fl) ''repo'' else [])] =
                      (out', errOut', err)"
                  using pgBackRestInfo_closure by (metis prod_cases3)
                from E have "err = Some e"
                  unfolding args showBackup_after_lookup [OF c cl n l [unfolded q] pe] r v
                  by (simp split: option.splits)
                with pe v show ?sources by blast
              qed
            qed
          qed
        qed
      qed
    qed
  qed
next
  assume a: "ToRESTConfig k = Inr config \<and> NewForConfig k config = Inr client
      \<and> Namespace k = Inr ns
      \<and> ListResource k client podsGVR ns (PrimaryInstanceLabels k name) = Inr [p]
      \<and> NewPodExecutor k config = Inr (specPodExecutor run)
      \<and> run (GetNamespace p) (GetName p) (ContainerDatabase k)
           [''bash'', ''-ceu'', ''--'',
            ''pgbackrest info --output='' @ outputFlag fl @
              (if TrimPrefix (repoName fl) ''repo'' \<noteq> []
               then '' --repo='' @ TrimPrefix (repoName fl) ''repo'' else [])]
          = Exited status out errOut"
  then have steps: "ToRESTConfig k = Inr config" "NewForConfig k config = Inr client"
    "Namespace k = Inr ns"
    "ListResource k client podsGVR ns (PrimaryInstanceLabels k name) = Inr [p]"
    "NewPodExecutor k config = Inr (specPodExecutor run)"
    by simp_all
  from a have r: "specPodExecutor run (GetNamespace p) (GetName p) (ContainerDatabase k)
           [''bash'', ''-ceu'', ''--'',
            ''pgbackrest info --output='' @ outputFlag fl @
              (if TrimPrefix (repoName fl) ''repo'' \<noteq> []
               then '' --repo='' @ TrimPrefix (repoName fl) ''repo'' else [])]
      = (out, errOut, None)"
    by (simp add: specPodExecutor_def)
  show n: "fst (showBackup k fl [name] s) = None"
    unfolding showBackup_after_lookup [OF steps] pgBackRestInfo_closure r by simp
  then show "exitCode (fst (showBackup k fl [name] s)) = 0"
    by (simp add: exitCode_def)
  show "printed (snd (showBackup k fl [name] s)) =
            printed s @ Sprintf0 out @
              (if errOut \<noteq> [] then CHR 0x0A # ''Error returned: '' @ errOut @ [CHR 0x0A]
               else [])"
    unfolding showBackup_after_lookup [OF steps] pgBackRestInfo_closure r by simp
qed

text \<open>
  The theorem at a configuration that does not load, and at a remote command that exits
  with status 55.
\<close>

theorem showBackup_failures_witness:
  "fst (showBackup brokenConfigKube defaultFlags [''hippo''] io0) =
     Some (Errorf ''invalid configuration'')
   \<and> ToRESTConfig brokenConfigKube = Inl (Errorf ''invalid configuration'')
   \<and> fst (showBackup remoteExitKube defaultFlags [''hippo''] io0) = None
   \<and> exitCode (fst (showBackup remoteExitKube defaultFlags [''hippo''] io0)) = 0
   \<and> printed (snd (showBackup remoteExitKube defaultFlags [''hippo''] io0)) =
       ''text info'' @ [CHR 0x0A] @ ''Error returned: no stanza'' @ [CHR 0x0A]"
proof -
  have E: "fst (showBackup brokenConfigKube defaultFlags [''hippo''] io0) =
     Some (Errorf ''invalid configuration'')"
    by (simp add: showBackup_def showBackup_RunE_def ExactArgs_def brokenConfigKube_def)
  have C: "ToRESTConfig brokenConfigKube = Inl (Errorf ''invalid configuration'')"
    by (simp add: brokenConfigKube_def)
  have p: "Sprintf0 ''text info'' = ''text info''"
    by (rule Sprintf0_no_percent) simp
  have steps: "ToRESTConfig remoteExitKube = Inr () \<and> NewForConfig remoteExitKube () = Inr ()
      \<and> Namespace remoteExitKube = Inr ''default''
      \<and> ListResource remoteExitKube () podsGVR ''default''
           (PrimaryInstanceLabels remoteExitKube ''hippo'') = Inr [pod ''default'' ''hippo-a-0'']
      \<and> NewPodExecutor remoteExitKube () = Inr (specPodExecutor
          (\<lambda>namespace pod container command. Exited 55 ''text info'' ''no stanza''))
      \<and> (\<lambda>namespace pod container command. Exited 55 ''text info'' ''no stanza'')
           (GetNamespace (pod ''default'' ''hippo-a-0'')) (GetName (pod ''default'' ''hippo-a-0''))
           (ContainerDatabase remoteExitKube)
           [''bash'', ''-ceu'', ''--'',
            ''pgbackrest info --output='' @ outputFlag defaultFlags @
              (if TrimPrefix (repoName defaultFlags) ''repo'' \<noteq> []
               then '' --repo='' @ TrimPrefix (repoName defaultFlags) ''repo'' else [])]
          = Exited 55 ''text info'' ''no stanza''"
    by (simp add: remoteExitKube_def mockKube_def)
  note T = showBackup_failures
    [where k = remoteExitKube and fl = defaultFlags and config = "()" and client = "()"
       and ns = "''default''" and name = "''hippo''" and p = "pod ''default'' ''hippo-a-0''"
       and run = "\<lambda>namespace pod container command. Exited 55 ''text info'' ''no stanza''"
       and status = 55 and out = "''text info''" and errOut = "''no stanza''" and s = io0,
     THEN conjunct2, rule_format, OF steps]
  note S = showBackup_failures
    [where k = brokenConfigKube and fl = defaultFlags and args = "[''hippo'']" and s = io0
       and e = "Errorf ''invalid configuration''",
     THEN conjunct1, rule_format, OF E]
  from E C S T p show ?thesis
    by (simp add: io0_def exitCode_def)
qed

text \<open>
  C2 as the claim states it fails: here the run returns an error and the exit code is 1,
  yet the list of the pods would have answered with exactly one pod and the pod executor
  would not have failed; neither was reached.
\<close>

theorem showBackup_exit_counterexample:
  "fst (showBackup brokenConfigKube defaultFlags [''hippo''] io0) =
     Some (Errorf ''invalid configuration'')
   \<and> exitCode (fst (showBackup brokenConfigKube defaultFlags [''hippo''] io0)) = 1
   \<and> snd (showBackup brokenConfigKube defaultFlags [''hippo''] io0) = io0
   \<and> ListResource brokenConfigKube () podsGVR ''default''
        (PrimaryInstanceLabels brokenConfigKube ''hippo'') = Inr [pod ''default'' ''hippo-a-0'']
   \<and> NewPodExecutor brokenConfigKube () =
        Inr (\<lambda>namespace pod container command. (''text info'', [], None))"
  by (simp add: showBackup_def showBackup_RunE_def ExactArgs_def brokenConfigKube_def
      mockKube_def exitCode_def)

subsection \<open>The message of create postgrescluster\<close>

text \<open>
  C8. A run of \<^verbatim>\<open>create postgrescluster\<close> that returns no error had exactly one
  argument \<open>name\<close>, every step succeeded, the API server answered the creation with an
  object \<open>u\<close>, and the run printed the line \<open>postgresclusters/<GetName u> created\<close>: the
  name is the one the server echoes.
\<close>

theorem createCluster_prints:
  assumes "fst (createCluster k args s) = None"
  shows "\<exists>name ns config client c u.
     args = [name] \<and> Namespace k = Inr ns \<and> ToRESTConfig k = Inr config
     \<and> NewForConfig k config = Inr client
     \<and> generateUnstructuredClusterYaml (Unmarshal k) name = Inr c
     \<and> CreateResource k client postgresclustersGVR ns c = Inr u
     \<and> printed (snd (createCluster k args s)) =
         printed s @ ''postgresclusters/'' @ GetName u @ '' created'' @ [CHR 0x0A]"
  using assms
  by (auto simp: createCluster_def createCluster_RunE_def ExactArgs_def Print_def Sprintf_s_def
      split: if_splits list.splits sum.splits)

text \<open>
  The theorem at \<open>hippo\<close>, for a server that echoes the object it is sent: the line is
  \<open>postgresclusters/hippo created\<close>.
\<close>

theorem createCluster_prints_witness:
  "fst (createCluster (mockKube ''hippo'' [] ([], [], None)) [''hippo''] io0) = None
   \<and> printed (snd (createCluster (mockKube ''hippo'' [] ([], [], None)) [''hippo''] io0)) =
       ''postgresclusters/hippo created'' @ [CHR 0x0A]"
proof -
  let ?k = "mockKube ''hippo'' [] ([], [], None)"
  have ok: "fst (createCluster ?k [''hippo''] io0) = None"
    by (simp add: createCluster_def createCluster_RunE_def ExactArgs_def
        generateUnstructuredClusterYaml_def mockKube_def)
  from createCluster_prints [OF ok]
  obtain name ns config client c u where
    n: "[''hippo''] = [name]"
    and g: "generateUnstructuredClusterYaml (Unmarshal ?k) name = Inr c"
    and u: "CreateResource ?k client postgresclustersGVR ns c = Inr u"
    and p: "printed (snd (createCluster ?k [''hippo''] io0)) =
         printed io0 @ ''postgresclusters/'' @ GetName u @ '' created'' @ [CHR 0x0A]"
    by blast
  from n g have "c = cluster ''hippo''"
    by (simp add: generateUnstructuredClusterYaml_def mockKube_def)
  with u have "u = cluster ''hippo''"
    by (simp add: mockKube_def)
  with p ok show ?thesis
    by (simp add: GetName_cluster io0_def)
qed

end
